theory Spec2Isabelle
  imports Complex_Main
begin

section \<open>Python values used by \<^verbatim>\<open>advanced_md_analysis.py\<close>\<close>

text \<open>
  The exceptions that the modelled code can raise. A function that may raise returns
  \<open>py_error + 'a\<close>, with \<open>Inl\<close> for the exception.
\<close>

datatype py_error = IndexError | KeyError | ValueError | FileNotFoundError | OSError

definition bind_err :: "py_error + 'a \<Rightarrow> ('a \<Rightarrow> py_error + 'b) \<Rightarrow> py_error + 'b" where
  "bind_err r f = (case r of Inl e \<Rightarrow> Inl e | Inr v \<Rightarrow> f v)"

subsection \<open>String methods\<close>

text \<open>
  Characters are bytes here, so only the ASCII part of \<^verbatim>\<open>str.isspace\<close> and of
  \<^verbatim>\<open>str.lower\<close> is modelled: tab, line feed, vertical tab, form feed, carriage
  return, the separators 0x1C to 0x1F and the space.
\<close>

definition isspace :: "char \<Rightarrow> bool" where
  "isspace c = (let n = (of_char c :: nat) in (9 \<le> n \<and> n \<le> 13) \<or> (28 \<le> n \<and> n \<le> 32))"

text \<open>\<^verbatim>\<open>s.strip()\<close>\<close>

definition strip :: "string \<Rightarrow> string" where
  "strip s = rev (dropWhile isspace (rev (dropWhile isspace s)))"

text \<open>\<^verbatim>\<open>s.startswith(p)\<close>\<close>

definition startswith :: "string \<Rightarrow> string \<Rightarrow> bool" where
  "startswith s p = (take (length p) s = p)"

text \<open>\<^verbatim>\<open>sub in s\<close>\<close>

fun contains :: "string \<Rightarrow> string \<Rightarrow> bool" where
  "contains sub [] = (sub = [])"
| "contains sub (c # cs) = (startswith (c # cs) sub \<or> contains sub cs)"

text \<open>\<^verbatim>\<open>s.lower()\<close>\<close>

definition lower_char :: "char \<Rightarrow> char" where
  "lower_char c = (let n = (of_char c :: nat) in if 65 \<le> n \<and> n \<le> 90 then char_of (n + 32) else c)"

definition lower :: "string \<Rightarrow> string" where
  "lower s = map lower_char s"

text \<open>
  \<^verbatim>\<open>s.split(sep)\<close> for a separator of one character: the pieces between the
  separators, always at least one piece, empty pieces kept.
\<close>

fun split_on :: "char \<Rightarrow> string \<Rightarrow> string list" where
  "split_on sep [] = [[]]"
| "split_on sep (c # cs) =
     (if c = sep then [] # split_on sep cs
      else (case split_on sep cs of
              [] \<Rightarrow> [[c]]
            | p # ps \<Rightarrow> (c # p) # ps))"

text \<open>
  \<^verbatim>\<open>s.split()\<close>: the maximal runs of characters that are not whitespace; no empty
  token.
\<close>

fun split_ws :: "string \<Rightarrow> string list" where
  "split_ws [] = []"
| "split_ws (c # cs) =
     (if isspace c then split_ws cs
      else if cs = [] \<or> isspace (hd cs) then [c] # split_ws cs
      else (case split_ws cs of
              [] \<Rightarrow> [[c]]
            | w # ws \<Rightarrow> (c # w) # ws))"

text \<open>\<^verbatim>\<open>xs[i]\<close> for \<open>i \<ge> 0\<close>: raises \<open>IndexError\<close> out of range.\<close>

definition py_index :: "'a list \<Rightarrow> nat \<Rightarrow> py_error + 'a" where
  "py_index xs i = (if i < length xs then Inr (xs ! i) else Inl IndexError)"

text \<open>The double quote character.\<close>

definition dquote :: char where
  "dquote = CHR 0x22"

subsection \<open>NumPy arrays\<close>

text \<open>
  The arrays that \<^verbatim>\<open>np.array\<close> builds from a list of rows:
  \<^item> \<open>Array1 xs\<close>: one dimension, shape \<open>(length xs,)\<close>; \<^verbatim>\<open>np.array([])\<close> is
    \<open>Array1 []\<close>;
  \<^item> \<open>Array2 w rows\<close>: two dimensions, shape \<open>(length rows, w)\<close>;
  \<^item> \<open>ArrayObj rows\<close>: one dimension of row objects, shape \<open>(length rows,)\<close>: what
    NumPy before 1.24 builds from rows of different lengths.
\<close>

datatype 'a ndarray = Array1 "'a list" | Array2 nat "'a list list" | ArrayObj "'a list list"

text \<open>
  \<^verbatim>\<open>np.array(rows)\<close>. What happens to rows of different lengths depends on the
  NumPy version, which the repository does not fix (an object array before 1.24, a
  \<open>ValueError\<close> from 1.24 on): it is the parameter \<open>ragged\<close>.
\<close>

definition np_array ::
  "('a list list \<Rightarrow> py_error + 'a ndarray) \<Rightarrow> 'a list list \<Rightarrow> py_error + 'a ndarray" where
  "np_array ragged rows =
     (if rows = [] then Inr (Array1 [])
      else if list_all (\<lambda>r. length r = length (hd rows)) rows
      then Inr (Array2 (length (hd rows)) rows)
      else ragged rows)"

definition legacy_ragged :: "'a list list \<Rightarrow> py_error + 'a ndarray" where
  "legacy_ragged rows = Inr (ArrayObj rows)"

definition strict_ragged :: "'a list list \<Rightarrow> py_error + 'a ndarray" where
  "strict_ragged rows = Inl ValueError"

text \<open>\<^verbatim>\<open>len(a)\<close> and \<^verbatim>\<open>a.shape\<close>\<close>

fun np_len :: "'a ndarray \<Rightarrow> nat" where
  "np_len (Array1 xs) = length xs"
| "np_len (Array2 w rows) = length rows"
| "np_len (ArrayObj rows) = length rows"

fun shape :: "'a ndarray \<Rightarrow> nat list" where
  "shape (Array1 xs) = [length xs]"
| "shape (Array2 w rows) = [length rows, w]"
| "shape (ArrayObj rows) = [length rows]"

text \<open>
  \<^verbatim>\<open>a[:, j]\<close>: the column \<open>j\<close> of a two-dimensional array; \<open>IndexError\<close> when the
  array has one dimension only, or fewer than \<open>j + 1\<close> columns.
\<close>

fun column :: "'a ndarray \<Rightarrow> nat \<Rightarrow> py_error + 'a list" where
  "column (Array2 w rows) j = (if j < w then Inr (map (\<lambda>r. r ! j) rows) else Inl IndexError)"
| "column (Array1 xs) j = Inl IndexError"
| "column (ArrayObj rows) j = Inl IndexError"

section \<open>The reader: \<^verbatim>\<open>read_xvg\<close>\<close>

text \<open>The dict \<^verbatim>\<open>metadata\<close> with its three keys \<^verbatim>\<open>'title'\<close>, \<^verbatim>\<open>'xlabel'\<close> and \<^verbatim>\<open>'ylabel'\<close>.\<close>

record metadata =
  md_title :: string
  md_xlabel :: string
  md_ylabel :: string

definition metadata0 :: metadata where
  "metadata0 = \<lparr>md_title = [], md_xlabel = [], md_ylabel = []\<rparr>"

text \<open>
  A file system maps a path to what is there: nothing, a readable text file (its lines,
  as iterating over the open file yields them), or something that \<^verbatim>\<open>open\<close> refuses.
\<close>

datatype fs_entry = Readable "string list" | Unreadable

type_synonym filesystem = "string \<Rightarrow> fs_entry option"

text \<open>
  \<^verbatim>\<open>[float(x) for x in tokens]\<close>: \<open>None\<close> when \<^verbatim>\<open>float\<close> raises \<open>ValueError\<close> on a
  token. Python's \<^verbatim>\<open>float\<close> is the parameter \<open>float\<close>, which returns \<open>None\<close> for the
  \<open>ValueError\<close>.
\<close>

fun float_all :: "(string \<Rightarrow> 'a option) \<Rightarrow> string list \<Rightarrow> 'a list option" where
  "float_all float [] = Some []"
| "float_all float (t # ts) =
     (case float t of
        None \<Rightarrow> None
      | Some v \<Rightarrow> (case float_all float ts of None \<Rightarrow> None | Some vs \<Rightarrow> Some (v # vs)))"

text \<open>\<^verbatim>\<open>line.split('"')[1]\<close>\<close>

definition quoted :: "string \<Rightarrow> py_error + string" where
  "quoted line = py_index (split_on dquote line) 1"

text \<open>
  The body of the loop over the lines, on the state \<open>(data_lines, metadata)\<close>. The bare
  \<^verbatim>\<open>except: pass\<close> leaves the metadata as it was.
\<close>

definition read_line ::
  "(string \<Rightarrow> 'a option) \<Rightarrow> 'a list list \<times> metadata \<Rightarrow> string \<Rightarrow> 'a list list \<times> metadata" where
  "read_line float st raw =
     (let line = strip raw; data_lines = fst st; md = snd st in
      if line = [] \<or> startswith line ''#'' then st
      else if startswith line ''@'' then
        (if contains ''title'' (lower line) then
           (case quoted line of Inr v \<Rightarrow> (data_lines, md\<lparr>md_title := v\<rparr>) | Inl e \<Rightarrow> st)
         else if contains ''xaxis'' (lower line) \<and> contains ''label'' (lower line) then
           (case quoted line of Inr v \<Rightarrow> (data_lines, md\<lparr>md_xlabel := v\<rparr>) | Inl e \<Rightarrow> st)
         else if contains ''yaxis'' (lower line) \<and> contains ''label'' (lower line) then
           (case quoted line of Inr v \<Rightarrow> (data_lines, md\<lparr>md_ylabel := v\<rparr>) | Inl e \<Rightarrow> st)
         else st)
      else (case float_all float (split_ws line) of
              Some values \<Rightarrow> (data_lines @ [values], md)
            | None \<Rightarrow> st))"

definition read_lines ::
  "(string \<Rightarrow> 'a option) \<Rightarrow> string list \<Rightarrow> 'a list list \<times> metadata" where
  "read_lines float ls = foldl (read_line float) ([], metadata0) ls"

definition read_xvg ::
  "(string \<Rightarrow> 'a option) \<Rightarrow> ('a list list \<Rightarrow> py_error + 'a ndarray) \<Rightarrow> filesystem \<Rightarrow> string
     \<Rightarrow> py_error + ('a ndarray \<times> metadata)" where
  "read_xvg float ragged fs filename =
     (case fs filename of
        None \<Rightarrow> Inl FileNotFoundError
      | Some Unreadable \<Rightarrow> Inl OSError
      | Some (Readable ls) \<Rightarrow>
          (let st = read_lines float ls in
           bind_err (np_array ragged (fst st)) (\<lambda>a. Inr (a, snd st))))"

section \<open>The summarizer: \<^verbatim>\<open>plot_with_stats\<close> and \<^verbatim>\<open>create_box_plots\<close>\<close>

text \<open>
  Python's floats are modelled as real numbers, and \<open>plot_entry\<close> and
  \<open>box_entry\<close> below compute with them exactly; the rounding of float64 is added
  for the loop body of \<^verbatim>\<open>plot_with_stats\<close> in \<open>plot_entry_in\<close> further down.
  Infinities and not-a-number values are outside the model, except that a statistic
  NumPy or SciPy reports as \<^verbatim>\<open>nan\<close> is \<open>None\<close>.
\<close>

definition COLORS :: "(string \<times> string) list" where
  "COLORS = [(''apo'', ''#2E86AB''), (''test'', ''#A23B72''), (''standard'', ''#F18F01'')]"

definition LABELS :: "(string \<times> string) list" where
  "LABELS = [(''apo'', ''Apo''), (''test'', ''Berberine''), (''standard'', ''Acarbose'')]"

text \<open>\<^verbatim>\<open>d[k]\<close> on a dict: raises \<open>KeyError\<close> for a missing key.\<close>

definition py_getitem :: "('k \<times> 'v) list \<Rightarrow> 'k \<Rightarrow> py_error + 'v" where
  "py_getitem d k = (case map_of d k of None \<Rightarrow> Inl KeyError | Some v \<Rightarrow> Inr v)"

text \<open>\<^verbatim>\<open>np.mean(a)\<close>: \<^verbatim>\<open>nan\<close> (here \<open>None\<close>) for an empty array.\<close>

definition np_mean :: "real list \<Rightarrow> real option" where
  "np_mean xs = (if xs = [] then None else Some (sum_list xs / real (length xs)))"

text \<open>
  The functions return nothing; what they do is the sequence of calls they make on the
  axes object \<^verbatim>\<open>ax\<close> and on \<^verbatim>\<open>scipy.stats\<close>, in order. Styling arguments that are
  constants of the source are left out of the record.
\<close>

datatype call =
    Plot "real list" "real list" string string
  | AxHLine "real option" string
  | SetXLabel string
  | SetYLabel string
  | Legend
  | Grid
  | SetTitle string
  | TextMeans "(string \<times> real option) list"
  | BoxPlot "real list list" "string list"
  | SetFaceColor nat string
  | SetAlpha nat
  | TTestInd "real list" "real list"
  | TextPValue "real option" bool

text \<open>
  A \<^verbatim>\<open>for\<close> loop whose body may raise: the first exception ends the loop and the
  function.
\<close>

fun for_each :: "('s \<Rightarrow> 'x \<Rightarrow> py_error + 's) \<Rightarrow> 's \<Rightarrow> 'x list \<Rightarrow> py_error + 's" where
  "for_each body st [] = Inr st"
| "for_each body st (x # xs) = bind_err (body st x) (\<lambda>st'. for_each body st' xs)"

text \<open>\<^verbatim>\<open>filepath.exists()\<close>\<close>

definition exists_path :: "filesystem \<Rightarrow> string \<Rightarrow> bool" where
  "exists_path fs filepath = (fs filepath \<noteq> None)"

subsection \<open>\<^verbatim>\<open>plot_with_stats\<close>\<close>

text \<open>
  What one pass through the loop body computes for a file that exists (lines 75 to 87):
  \<open>(x, y, label, color, mean_y)\<close>.
\<close>

definition plot_entry ::
  "(string \<Rightarrow> real option) \<Rightarrow> (real list list \<Rightarrow> py_error + real ndarray) \<Rightarrow> filesystem
     \<Rightarrow> real \<Rightarrow> bool \<Rightarrow> string \<times> string
     \<Rightarrow> py_error + (real list \<times> real list \<times> string \<times> string \<times> real option)" where
  "plot_entry float ragged fs convert_factor time_ns kv =
     (let key = fst kv; filepath = snd kv in
      bind_err (read_xvg float ragged fs filepath) (\<lambda>r.
      let data = fst r in
      bind_err (column data 0) (\<lambda>c0.
      let x = (if time_ns then map (\<lambda>v. v / 1000) c0 else c0) in
      bind_err (column data 1) (\<lambda>c1.
      let y = map (\<lambda>v. v * convert_factor) c1 in
      bind_err (py_getitem LABELS key) (\<lambda>label.
      bind_err (py_getitem COLORS key) (\<lambda>color.
      let mean_y = np_mean (drop (length y div 2) y) in
      Inr (x, y, label, color, mean_y)))))))"

text \<open>The loop body, on the state \<open>(calls, all_means)\<close>.\<close>

definition plot_body ::
  "(string \<Rightarrow> real option) \<Rightarrow> (real list list \<Rightarrow> py_error + real ndarray) \<Rightarrow> filesystem
     \<Rightarrow> real \<Rightarrow> bool \<Rightarrow> call list \<times> (string \<times> real option) list \<Rightarrow> string \<times> string
     \<Rightarrow> py_error + (call list \<times> (string \<times> real option) list)" where
  "plot_body float ragged fs convert_factor time_ns st kv =
     (if exists_path fs (snd kv) then
        bind_err (plot_entry float ragged fs convert_factor time_ns kv) (\<lambda>e.
          case e of (x, y, label, color, mean_y) \<Rightarrow>
            Inr (fst st @ [Plot x y label color, AxHLine mean_y color],
                 snd st @ [(label, mean_y)]))
      else Inr st)"

definition plot_with_stats ::
  "(string \<Rightarrow> real option) \<Rightarrow> (real list list \<Rightarrow> py_error + real ndarray) \<Rightarrow> filesystem
     \<Rightarrow> (string \<times> string) list \<Rightarrow> string \<Rightarrow> string \<Rightarrow> real \<Rightarrow> bool \<Rightarrow> py_error + call list" where
  "plot_with_stats float ragged fs files_dict ylabel ttl convert_factor time_ns =
     bind_err (for_each (plot_body float ragged fs convert_factor time_ns) ([], []) files_dict)
       (\<lambda>st.
          let calls = fst st @
                [SetXLabel (if time_ns then ''Time (ns)'' else ''Residue''),
                 SetYLabel ylabel, Legend, Grid, SetTitle ttl];
              all_means = snd st
          in Inr (if all_means \<noteq> [] then calls @ [TextMeans all_means] else calls))"

subsection \<open>\<^verbatim>\<open>create_box_plots\<close>\<close>

text \<open>
  What one pass through the loop body computes for a file that exists (lines 113 to
  119): \<open>(eq_values, label, color)\<close>.
\<close>

definition box_entry ::
  "(string \<Rightarrow> real option) \<Rightarrow> (real list list \<Rightarrow> py_error + real ndarray) \<Rightarrow> filesystem
     \<Rightarrow> real \<Rightarrow> string \<times> string \<Rightarrow> py_error + (real list \<times> string \<times> string)" where
  "box_entry float ragged fs convert_factor kv =
     (let key = fst kv; filepath = snd kv in
      bind_err (read_xvg float ragged fs filepath) (\<lambda>r.
      let data = fst r in
      bind_err (column data 1) (\<lambda>c1.
      let values = map (\<lambda>v. v * convert_factor) c1;
          eq_values = drop (length values div 2) values in
      bind_err (py_getitem LABELS key) (\<lambda>label.
      bind_err (py_getitem COLORS key) (\<lambda>color.
      Inr (eq_values, label, color))))))"

text \<open>The loop body, on the state \<open>(data_list, labels_list, colors_list)\<close>.\<close>

definition box_body ::
  "(string \<Rightarrow> real option) \<Rightarrow> (real list list \<Rightarrow> py_error + real ndarray) \<Rightarrow> filesystem
     \<Rightarrow> real \<Rightarrow> real list list \<times> string list \<times> string list \<Rightarrow> string \<times> string
     \<Rightarrow> py_error + (real list list \<times> string list \<times> string list)" where
  "box_body float ragged fs convert_factor st kv =
     (if exists_path fs (snd kv) then
        bind_err (box_entry float ragged fs convert_factor kv) (\<lambda>e.
          case (st, e) of ((data_list, labels_list, colors_list), (eq_values, label, color)) \<Rightarrow>
            Inr (data_list @ [eq_values], labels_list @ [label], colors_list @ [color]))
      else Inr st)"

text \<open>
  The calls on the patches of the box plot, one patch for each data set:
  \<^verbatim>\<open>for patch, color in zip(bp['boxes'], colors_list)\<close>.
\<close>

definition color_boxes :: "nat \<Rightarrow> string list \<Rightarrow> call list" where
  "color_boxes n colors_list =
     concat (map (\<lambda>pc. [SetFaceColor (fst pc) (snd pc), SetAlpha (fst pc)]) (zip [0..<n] colors_list))"

text \<open>
  \<^verbatim>\<open>scipy.stats.ttest_ind\<close> is the parameter \<open>ttest_ind\<close>: it returns the statistic and
  the p-value (\<open>None\<close> for \<^verbatim>\<open>nan\<close>, which compares false with \<open>0.05\<close>).
\<close>

definition significant :: "real option \<Rightarrow> bool" where
  "significant p_val = (case p_val of None \<Rightarrow> False | Some p \<Rightarrow> p < 0.05)"

definition create_box_plots ::
  "(string \<Rightarrow> real option) \<Rightarrow> (real list list \<Rightarrow> py_error + real ndarray)
     \<Rightarrow> (real list \<Rightarrow> real list \<Rightarrow> 't \<times> real option) \<Rightarrow> filesystem
     \<Rightarrow> string \<Rightarrow> (string \<times> string) list \<Rightarrow> string \<Rightarrow> real \<Rightarrow> py_error + call list" where
  "create_box_plots float ragged ttest_ind fs param_name files_dict ylabel convert_factor =
     bind_err (for_each (box_body float ragged fs convert_factor) ([], [], []) files_dict)
       (\<lambda>st. case st of (data_list, labels_list, colors_list) \<Rightarrow>
          Inr (if data_list \<noteq> [] then
                 [BoxPlot data_list labels_list]
                 @ color_boxes (length data_list) colors_list
                 @ (if length data_list \<ge> 2 then
                      (let p_val = snd (ttest_ind (data_list ! 1) (data_list ! 0)) in
                       [TTestInd (data_list ! 1) (data_list ! 0),
                        TextPValue p_val (significant p_val)])
                    else [])
                 @ [SetYLabel ylabel, Grid, SetTitle (param_name @ '' Distribution'')]
               else []))"

text \<open>The calls of a record that are t-tests.\<close>

fun is_ttest :: "call \<Rightarrow> bool" where
  "is_ttest (TTestInd a b) = True"
| "is_ttest c = False"

subsection \<open>The arithmetic of \<^verbatim>\<open>plot_with_stats\<close> in float64\<close>

text \<open>
  The definitions above compute with real numbers. NumPy computes in float64: every
  product, quotient and sum is rounded to the nearest double, ties to even. A finite
  double is the real number it denotes; \<open>fl64 x\<close> is the double nearest to \<open>x\<close>:
  binary64 keeps 53 significant bits, and below \<open>2 ^ - 1022\<close> a fixed spacing of
  \<open>2 ^ - 1074\<close>. Overflow to infinity is outside the model.
\<close>

fun ilog2 :: "nat \<Rightarrow> nat" where
  "ilog2 n = (if n < 2 then 0 else Suc (ilog2 (n div 2)))"

definition pow2 :: "int \<Rightarrow> real" where
  "pow2 k = (if 0 \<le> k then 2 ^ nat k else 1 / 2 ^ nat (- k))"

text \<open>For \<open>x > 0\<close>, the \<open>e\<close> with \<open>2 ^ e \<le> x < 2 ^ (e + 1)\<close>.\<close>

definition exponent :: "real \<Rightarrow> int" where
  "exponent x =
     (if 1 \<le> x then int (ilog2 (nat \<lfloor>x\<rfloor>))
      else (let j = int (ilog2 (nat \<lfloor>1 / x\<rfloor>)) in if x * pow2 j = 1 then - j else - j - 1))"

definition round_even :: "real \<Rightarrow> int" where
  "round_even q =
     (let f = \<lfloor>q\<rfloor>; r = q - of_int f
      in if r < 1 / 2 then f else if 1 / 2 < r then f + 1 else if even f then f else f + 1)"

definition fl64 :: "real \<Rightarrow> real" where
  "fl64 x =
     (if x = 0 then 0
      else (let ulp = pow2 (max (exponent \<bar>x\<bar>) (- 1022) - 52)
            in sgn x * of_int (round_even (\<bar>x\<bar> / ulp)) * ulp))"

text \<open>
  The arithmetic that the loop body of \<^verbatim>\<open>plot_with_stats\<close> uses: the product of
  line 80, the quotient of line 77 and \<^verbatim>\<open>np.mean\<close> of line 86. \<open>exact\<close> is the
  arithmetic of the real numbers, as in \<open>plot_entry\<close>; \<open>float64\<close> is NumPy's. The
  order in which NumPy adds the elements depends on the length of the array and on the
  version: the sum is the parameter \<open>fsum\<close>, and \<open>seq_sum\<close> adds the elements in
  order, as NumPy does for fewer than 8 elements.
\<close>

record arith =
  a_times :: "real \<Rightarrow> real \<Rightarrow> real"
  a_divide :: "real \<Rightarrow> real \<Rightarrow> real"
  a_mean :: "real list \<Rightarrow> real option"

definition exact :: arith where
  "exact = \<lparr>a_times = (\<lambda>a b. a * b), a_divide = (\<lambda>a b. a / b), a_mean = np_mean\<rparr>"



text \<open>Lines 75 to 87 again, in the arithmetic \<open>ar\<close>.\<close>

definition plot_entry_in ::
  "arith \<Rightarrow> (string \<Rightarrow> real option) \<Rightarrow> (real list list \<Rightarrow> py_error + real ndarray)
     \<Rightarrow> filesystem \<Rightarrow> real \<Rightarrow> bool \<Rightarrow> string \<times> string
     \<Rightarrow> py_error + (real list \<times> real list \<times> string \<times> string \<times> real option)" where
  "plot_entry_in ar float ragged fs convert_factor time_ns kv =
     (let key = fst kv; filepath = snd kv in
      bind_err (read_xvg float ragged fs filepath) (\<lambda>r.
      let data = fst r in
      bind_err (column data 0) (\<lambda>c0.
      let x = (if time_ns then map (\<lambda>v. a_divide ar v 1000) c0 else c0) in
      bind_err (column data 1) (\<lambda>c1.
      let y = map (\<lambda>v. a_times ar v convert_factor) c1 in
      bind_err (py_getitem LABELS key) (\<lambda>label.
      bind_err (py_getitem COLORS key) (\<lambda>color.
      let mean_y = a_mean ar (drop (length y div 2) y) in
      Inr (x, y, label, color, mean_y)))))))"

section \<open>Vocabulary of the specification\<close>

text \<open>
  A line yields a row when, stripped, it is not empty, starts with neither the comment
  marker nor the annotation marker, and every token of it parses as a float; the row is
  the sequence of the parsed tokens.
\<close>

definition numeric_line :: "(string \<Rightarrow> 'a option) \<Rightarrow> string \<Rightarrow> bool" where
  "numeric_line float raw =
     (let line = strip raw in
      line \<noteq> [] \<and> \<not> startswith line ''#'' \<and> \<not> startswith line ''@''
      \<and> list_all (\<lambda>t. float t \<noteq> None) (split_ws line))"

definition row_of :: "(string \<Rightarrow> 'a option) \<Rightarrow> string \<Rightarrow> 'a list" where
  "row_of float raw = map (\<lambda>t. the (float t)) (split_ws (strip raw))"

text \<open>
  The text after the first double quote of a line, up to the next double quote or, when
  there is none, to the end of the line.
\<close>

definition quoted_value :: "string \<Rightarrow> string" where
  "quoted_value line = takeWhile (\<lambda>c. c \<noteq> dquote) (tl (dropWhile (\<lambda>c. c \<noteq> dquote) line))"

text \<open>A table of fixed width: every row is as long as the first.\<close>

definition rectangular :: "'a list list \<Rightarrow> bool" where
  "rectangular rows = list_all (\<lambda>r. length r = length (hd rows)) rows"

text \<open>The entries of \<^verbatim>\<open>files_dict\<close> whose file exists, in the order of the dict.\<close>

definition present :: "filesystem \<Rightarrow> (string \<times> string) list \<Rightarrow> (string \<times> string) list" where
  "present fs files_dict = filter (\<lambda>kv. exists_path fs (snd kv)) files_dict"

text \<open>
  Running a body that may raise over a list and collecting the results: the first
  exception ends it. The loops of the summarizer are described with it.
\<close>

fun collect :: "('x \<Rightarrow> py_error + 'e) \<Rightarrow> 'x list \<Rightarrow> py_error + 'e list" where
  "collect f [] = Inr []"
| "collect f (x # xs) = bind_err (f x) (\<lambda>e. bind_err (collect f xs) (\<lambda>es. Inr (e # es)))"

text \<open>The two calls and the entry of \<^verbatim>\<open>all_means\<close> that one series adds.\<close>

definition plot_calls ::
  "real list \<times> real list \<times> string \<times> string \<times> real option \<Rightarrow> call list" where
  "plot_calls e =
     (case e of (x, y, label, color, mean_y) \<Rightarrow> [Plot x y label color, AxHLine mean_y color])"

definition plot_mean ::
  "real list \<times> real list \<times> string \<times> string \<times> real option \<Rightarrow> string \<times> real option" where
  "plot_mean e = (case e of (x, y, label, color, mean_y) \<Rightarrow> (label, mean_y))"

subsection \<open>Sample inputs\<close>

text \<open>
  \<^verbatim>\<open>float\<close> restricted to the strings of decimal digits, where it returns the number
  they denote. It is \<open>None\<close> on every other string, also on those that Python's
  \<^verbatim>\<open>float\<close> accepts (signs, fractions, exponents, \<^verbatim>\<open>inf\<close>, \<^verbatim>\<open>nan\<close>): the sample
  files below hold digit strings and tokens that \<^verbatim>\<open>float\<close> rejects, nothing else.
\<close>

definition digit_val :: "char \<Rightarrow> nat option" where
  "digit_val c = (let n = (of_char c :: nat) in if 48 \<le> n \<and> n \<le> 57 then Some (n - 48) else None)"

fun digits_val :: "nat \<Rightarrow> string \<Rightarrow> nat option" where
  "digits_val acc [] = Some acc"
| "digits_val acc (c # cs) =
     (case digit_val c of None \<Rightarrow> None | Some d \<Rightarrow> digits_val (10 * acc + d) cs)"

definition float_digits :: "string \<Rightarrow> real option" where
  "float_digits s = (if s = [] then None else map_option real (digits_val 0 s))"

text \<open>
  A directory with a small table under a title (one line of it is not numeric), a second
  small table, a file of comments only, a table whose rows differ in width, a table of
  one row and a table of ten rows.
\<close>

definition sample_lines :: "string list" where
  "sample_lines =
     [''# rmsd of the backbone'',
      ''@    title '' @ [dquote] @ ''RMSD'' @ [dquote],
      [],
      ''0 1'',
      ''10 x'',
      ''  20 5  '',
      ''30 7'']"

definition other_lines :: "string list" where
  "other_lines = [''0 2'', ''1 4'', ''2 6'', ''3 8'']"

definition ragged_lines :: "string list" where
  "ragged_lines = [''0 1'', ''1 2 3'', ''2 4'']"

text \<open>A title annotation whose closing quote is missing.\<close>

definition title_line :: string where
  "title_line = ''@    title '' @ [dquote] @ ''RMSD''"

text \<open>The ten rows \<open>(i, 2 i)\<close> for \<open>i\<close> from 0 to 9.\<close>

definition ten_lines :: "string list" where
  "ten_lines =
     [''0 0'', ''1 2'', ''2 4'', ''3 6'', ''4 8'', ''5 10'', ''6 12'', ''7 14'', ''8 16'', ''9 18'']"

definition sample_fs :: filesystem where
  "sample_fs =
     [''rmsd_apo.xvg'' \<mapsto> Readable sample_lines,
      ''rmsd_test.xvg'' \<mapsto> Readable other_lines,
      ''empty.xvg'' \<mapsto> Readable [''# no data''],
      ''ragged.xvg'' \<mapsto> Readable ragged_lines,
      ''single.xvg'' \<mapsto> Readable [''0 7''],
      ''ten.xvg'' \<mapsto> Readable ten_lines]"



text \<open>
  The dict of the RMSD files as \<^verbatim>\<open>create_full_analysis\<close> builds it, the dict of the
  radius of gyration files (none of them is in the sample directory), and a stand-in for
  \<^verbatim>\<open>ttest_ind\<close> in the sample runs, which reports \<^verbatim>\<open>nan\<close> as the p-value.
\<close>

definition rmsd_files :: "(string \<times> string) list" where
  "rmsd_files =
     [(''apo'', ''rmsd_apo.xvg''), (''test'', ''rmsd_test.xvg''),
      (''standard'', ''rmsd_standard.xvg'')]"

definition rg_files :: "(string \<times> string) list" where
  "rg_files =
     [(''apo'', ''rg_apo.xvg''), (''test'', ''rg_test.xvg''), (''standard'', ''rg_standard.xvg'')]"

definition sample_ttest :: "real list \<Rightarrow> real list \<Rightarrow> real \<times> real option" where
  "sample_ttest a b = (0, None)"

section \<open>Properties of the reader\<close>

lemma float_all_eq:
  "float_all float ts =
     (if list_all (\<lambda>t. float t \<noteq> None) ts then Some (map (\<lambda>t. the (float t)) ts) else None)"
  by (induction ts) (auto split: option.splits)

lemma read_line_rows:
  "fst (read_line float st raw) =
     fst st @ (if numeric_line float raw then [row_of float raw] else [])"
  by (auto simp: read_line_def numeric_line_def row_of_def Let_def float_all_eq
      split: sum.splits option.splits)

lemma foldl_read_line_rows:
  "fst (foldl (read_line float) st ls) =
     fst st @ map (row_of float) (filter (numeric_line float) ls)"
  by (induction ls arbitrary: st) (simp_all add: read_line_rows)

lemma read_lines_rows:
  "fst (read_lines float ls) = map (row_of float) (filter (numeric_line float) ls)"
  by (simp add: read_lines_def foldl_read_line_rows)

text \<open>
  The tokens of \<open>split_ws\<close> are the maximal runs of characters that are not
  whitespace: after the leading whitespace comes the first token, up to the next
  whitespace, and then the tokens of the rest.
\<close>

lemma split_ws_token:
  "t \<noteq> [] \<Longrightarrow> list_all (\<lambda>c. \<not> isspace c) t \<Longrightarrow> (rest = [] \<or> isspace (hd rest)) \<Longrightarrow>
   split_ws (t @ rest) = t # split_ws rest"
proof (induction t)
  case Nil
  then show ?case by simp
next
  case (Cons c t)
  show ?case
  proof (cases "t = []")
    case True
    with Cons.prems show ?thesis by auto
  next
    case False
    with Cons have "split_ws (t @ rest) = t # split_ws rest" by simp
    moreover have "\<not> isspace (hd (t @ rest))" using False Cons.prems(2) by (cases t) auto
    ultimately show ?thesis using Cons.prems(2) False by simp
  qed
qed

lemma list_all_takeWhile: "list_all P (takeWhile P xs)"
  by (induction xs) auto

lemma hd_dropWhile_not: "dropWhile P xs = [] \<or> \<not> P (hd (dropWhile P xs))"
  by (induction xs) auto

lemma split_ws_unfold:
  "split_ws s =
     (case dropWhile isspace s of
        [] \<Rightarrow> []
      | c # cs \<Rightarrow> takeWhile (\<lambda>c. \<not> isspace c) (c # cs)
                 # split_ws (dropWhile (\<lambda>c. \<not> isspace c) (c # cs)))"
proof (induction s)
  case Nil
  then show ?case by simp
next
  case (Cons a s)
  show ?case
  proof (cases "isspace a")
    case True
    then show ?thesis using Cons.IH by simp
  next
    case False
    let ?t = "takeWhile (\<lambda>c. \<not> isspace c) (a # s)"
    let ?r = "dropWhile (\<lambda>c. \<not> isspace c) (a # s)"
    have t: "?t \<noteq> []" using False by simp
    have a: "list_all (\<lambda>c. \<not> isspace c) ?t"
      by (rule list_all_takeWhile)
    have r: "?r = [] \<or> isspace (hd ?r)"
      using hd_dropWhile_not[of "\<lambda>c. \<not> isspace c" "a # s"] by blast
    have "split_ws (?t @ ?r) = ?t # split_ws ?r"
      by (rule split_ws_token[OF t a r])
    then have "split_ws (a # s) = ?t # split_ws ?r"
      by (simp only: takeWhile_dropWhile_id)
    then show ?thesis using False by simp
  qed
qed

text \<open>The pieces of \<open>split_on\<close>: the second one is the text between the first two separators.\<close>

lemma split_on_nonempty: "split_on sep s \<noteq> []"
  by (induction s) (auto split: list.splits)

lemma split_on_no_sep: "sep \<notin> set s \<Longrightarrow> split_on sep s = [s]"
  by (induction s) auto

lemma split_on_hd: "hd (split_on sep s) = takeWhile (\<lambda>c. c \<noteq> sep) s"
  by (induction s) (auto split: list.splits simp: split_on_nonempty)

lemma split_on_second:
  "sep \<in> set s \<Longrightarrow>
   1 < length (split_on sep s) \<and>
   split_on sep s ! 1 = takeWhile (\<lambda>c. c \<noteq> sep) (tl (dropWhile (\<lambda>c. c \<noteq> sep) s))"
proof (induction s)
  case Nil
  then show ?case by simp
next
  case (Cons c cs)
  show ?case
  proof (cases "c = sep")
    case True
    have "split_on sep cs \<noteq> []" by (rule split_on_nonempty)
    moreover have "hd (split_on sep cs) = takeWhile (\<lambda>c. c \<noteq> sep) cs" by (rule split_on_hd)
    ultimately show ?thesis using True by (cases "split_on sep cs") auto
  next
    case False
    with Cons.prems have "sep \<in> set cs" by simp
    from Cons.IH[OF this] show ?thesis using False
      by (cases "split_on sep cs") auto
  qed
qed

lemma quoted_eq:
  "quoted line =
     (if dquote \<in> set line
      then Inr (takeWhile (\<lambda>c. c \<noteq> dquote) (tl (dropWhile (\<lambda>c. c \<noteq> dquote) line)))
      else Inl IndexError)"
proof (cases "dquote \<in> set line")
  case True
  from split_on_second[OF this] show ?thesis using True
    by (simp add: quoted_def py_index_def)
next
  case False
  then show ?thesis by (simp add: quoted_def py_index_def split_on_no_sep)
qed

section \<open>Properties of the summarizer's loops\<close>

lemma bind_err_simps [simp]:
  "bind_err (Inl e) f = Inl e" "bind_err (Inr v) f = f v"
  by (simp_all add: bind_err_def)

lemma for_each_plot:
  "for_each (plot_body float ragged fs cf tns) st files =
     bind_err (collect (plot_entry float ragged fs cf tns) (present fs files))
       (\<lambda>es. Inr (fst st @ concat (map plot_calls es), snd st @ map plot_mean es))"
proof (induction files arbitrary: st)
  case Nil
  then show ?case by (simp add: present_def)
next
  case (Cons kv files)
  show ?case
  proof (cases "exists_path fs (snd kv)")
    case False
    then show ?thesis using Cons.IH[of st] by (simp add: present_def plot_body_def)
  next
    case True
    show ?thesis
    proof (cases "plot_entry float ragged fs cf tns kv")
      case (Inl e)
      then show ?thesis using True by (simp add: present_def plot_body_def)
    next
      case (Inr e)
      obtain x y label color m where e: "e = (x, y, label, color, m)" by (cases e) auto
      let ?st' = "(fst st @ [Plot x y label color, AxHLine m color], snd st @ [(label, m)])"
      have body: "plot_body float ragged fs cf tns st kv = Inr ?st'"
        using True Inr e by (simp add: plot_body_def)
      have pres: "present fs (kv # files) = kv # present fs files"
        using True by (simp add: present_def)
      show ?thesis
      proof (cases "collect (plot_entry float ragged fs cf tns) (present fs files)")
        case (Inl e')
        then show ?thesis using body pres Inr Cons.IH[of ?st'] by simp
      next
        case (Inr es)
        then show ?thesis
          using body pres \<open>plot_entry float ragged fs cf tns kv = Inr e\<close> e Cons.IH[of ?st']
          by (simp add: plot_calls_def plot_mean_def)
      qed
    qed
  qed
qed

lemma for_each_box:
  "for_each (box_body float ragged fs cf) st files =
     bind_err (collect (box_entry float ragged fs cf) (present fs files))
       (\<lambda>es. Inr (fst st @ map fst es, fst (snd st) @ map (\<lambda>e. fst (snd e)) es,
                   snd (snd st) @ map (\<lambda>e. snd (snd e)) es))"
proof (induction files arbitrary: st)
  case Nil
  then show ?case by (simp add: present_def)
next
  case (Cons kv files)
  show ?case
  proof (cases "exists_path fs (snd kv)")
    case False
    then show ?thesis using Cons.IH[of st] by (simp add: present_def box_body_def)
  next
    case True
    show ?thesis
    proof (cases "box_entry float ragged fs cf kv")
      case (Inl e)
      then show ?thesis using True by (simp add: present_def box_body_def)
    next
      case (Inr e)
      obtain w label color where e: "e = (w, label, color)" by (cases e) auto
      obtain d l c where st: "st = (d, l, c)" by (cases st) auto
      let ?st' = "(d @ [w], l @ [label], c @ [color])"
      have body: "box_body float ragged fs cf st kv = Inr ?st'"
        using True Inr e st by (simp add: box_body_def)
      have pres: "present fs (kv # files) = kv # present fs files"
        using True by (simp add: present_def)
      show ?thesis
      proof (cases "collect (box_entry float ragged fs cf) (present fs files)")
        case (Inl e')
        then show ?thesis using body pres Inr Cons.IH[of ?st'] by simp
      next
        case (Inr es)
        then show ?thesis
          using body pres \<open>box_entry float ragged fs cf kv = Inr e\<close> e st Cons.IH[of ?st']
          by simp
      qed
    qed
  qed
qed

lemma plot_entry_box_entry:
  assumes "plot_entry float ragged fs cf tns kv = Inr (x, y, label, color, m)"
  shows "box_entry float ragged fs cf kv = Inr (drop (length y div 2) y, label, color)
         \<and> m = np_mean (drop (length y div 2) y)"
  using assms
  by (auto simp: plot_entry_def box_entry_def Let_def bind_err_def split: sum.splits)

lemma is_ttest_color_boxes: "filter is_ttest (color_boxes n cs) = []"
  by (induction cs arbitrary: n) (auto simp: color_boxes_def filter_concat)

section \<open>Evaluation of the sample inputs\<close>

lemma sample_numeric:
  "filter (numeric_line float_digits) sample_lines = [''0 1'', ''  20 5  '', ''30 7'']"
  by code_simp

lemma sample_rows:
  "row_of float_digits ''0 1'' = [0, 1]"
  "row_of float_digits ''  20 5  '' = [20, 5]"
  "row_of float_digits ''30 7'' = [30, 7]"
  by code_simp+

lemma ragged_numeric:
  "map (row_of float_digits) (filter (numeric_line float_digits) ragged_lines)
     = [[0, 1], [1, 2, 3], [2, 4]]"
  by code_simp

lemma title_line_facts:
  "title_line = strip title_line"
  "startswith title_line ''@''"
  "dquote \<in> set title_line"
  "contains ''title'' (lower title_line)"
  "quoted_value title_line = ''RMSD''"
  by code_simp+

section \<open>The claims about the reader\<close>

text \<open>
  Claim C3. For a well-formed input file (its numeric lines all have the same number of
  tokens), the reader returns a matrix with exactly one row for each line that, once
  stripped, is not empty, starts with neither \<open>#\<close> nor \<open>@\<close> and has only tokens
  that parse as floats, in the order of the file; no other line contributes a row.
\<close>

theorem read_xvg_rows:
  assumes "fs filename = Some (Readable ls)"
    and "rectangular (map (row_of float) (filter (numeric_line float) ls))"
  shows "\<exists>a md. read_xvg float ragged fs filename = Inr (a, md)
           \<and> np_len a = length (filter (numeric_line float) ls)
           \<and> a = (let rows = map (row_of float) (filter (numeric_line float) ls)
                  in if rows = [] then Array1 [] else Array2 (length (hd rows)) rows)"
  using assms
  by (simp add: read_xvg_def read_lines_rows np_array_def rectangular_def Let_def)

text \<open>
  The sample table has seven lines, three of them numeric: the reader returns the
  three rows.
\<close>

theorem read_xvg_rows_witness:
  "sample_fs ''rmsd_apo.xvg'' = Some (Readable sample_lines)
   \<and> rectangular (map (row_of float_digits) (filter (numeric_line float_digits) sample_lines))
   \<and> (\<exists>a md. read_xvg float_digits strict_ragged sample_fs ''rmsd_apo.xvg'' = Inr (a, md)
          \<and> np_len a = 3 \<and> a = Array2 2 [[0, 1], [20, 5], [30, 7]])"
proof -
  have f: "sample_fs ''rmsd_apo.xvg'' = Some (Readable sample_lines)"
    by (simp add: sample_fs_def)
  have r: "rectangular (map (row_of float_digits) (filter (numeric_line float_digits) sample_lines))"
    by code_simp
  from read_xvg_rows[of sample_fs "''rmsd_apo.xvg''" sample_lines float_digits strict_ragged,
      OF f r] f r
  show ?thesis
    by (simp add: sample_numeric sample_rows numeral_2_eq_2)
qed

text \<open>
  Claim C7, as the code has it. On an annotation line (stripped, it starts with \<open>@\<close>):
  without any double quote the state is unchanged, so a field keeps the value it had;
  with a double quote, the first key that the line matches (title; x-axis label; y-axis
  label) has its field set to the text between the first double quote and the next one,
  or to the rest of the line when the closing quote is missing. The line never adds a
  row and the rows of the other lines are read as without it.
\<close>

theorem annotation_line:
  assumes "line = strip raw" and "startswith line ''@''"
  shows "read_line float (rows, md) raw =
           (if dquote \<notin> set line then (rows, md)
            else if contains ''title'' (lower line)
              then (rows, md\<lparr>md_title := quoted_value line\<rparr>)
            else if contains ''xaxis'' (lower line) \<and> contains ''label'' (lower line)
              then (rows, md\<lparr>md_xlabel := quoted_value line\<rparr>)
            else if contains ''yaxis'' (lower line) \<and> contains ''label'' (lower line)
              then (rows, md\<lparr>md_ylabel := quoted_value line\<rparr>)
            else (rows, md))
         \<and> fst (read_lines float (before @ raw # after)) = fst (read_lines float (before @ after))"
proof -
  have ne: "strip raw \<noteq> []" "\<not> startswith (strip raw) ''#''"
    using assms by (auto simp: startswith_def)
  have nn: "\<not> numeric_line float raw"
    using assms by (simp add: numeric_line_def)
  have "fst (read_lines float (before @ raw # after)) = fst (read_lines float (before @ after))"
    using nn by (simp add: read_lines_rows)
  moreover have "read_line float (rows, md) raw =
           (if dquote \<notin> set line then (rows, md)
            else if contains ''title'' (lower line)
              then (rows, md\<lparr>md_title := quoted_value line\<rparr>)
            else if contains ''xaxis'' (lower line) \<and> contains ''label'' (lower line)
              then (rows, md\<lparr>md_xlabel := quoted_value line\<rparr>)
            else if contains ''yaxis'' (lower line) \<and> contains ''label'' (lower line)
              then (rows, md\<lparr>md_ylabel := quoted_value line\<rparr>)
            else (rows, md))"
    using assms ne by (simp add: read_line_def Let_def quoted_eq quoted_value_def)
  ultimately show ?thesis by simp
qed

text \<open>
  Claim C7 as stated fails: a title annotation whose closing quote is missing does not
  leave the title at its default, it sets the title to the text after the opening quote.
\<close>

theorem missing_closing_quote:
  "md_title (snd (read_lines float_digits [title_line])) = ''RMSD''
   \<and> md_title (snd (read_lines float_digits [title_line])) \<noteq> md_title metadata0"
  by code_simp

text \<open>The same line between two numeric lines: the title is set, both rows are read.\<close>

theorem annotation_line_witness:
  "title_line = strip title_line \<and> startswith title_line ''@''
   \<and> read_line float_digits ([[0, 1]], metadata0) title_line
       = ([[0, 1]], metadata0\<lparr>md_title := ''RMSD''\<rparr>)
   \<and> fst (read_lines float_digits ([''0 1''] @ title_line # [''2 3'']))
       = fst (read_lines float_digits ([''0 1''] @ [''2 3'']))"
  using annotation_line[OF title_line_facts(1,2), of float_digits "[[0, 1]]" metadata0
      "[''0 1'']" "[''2 3'']"]
    title_line_facts
  by simp

text \<open>
  Claim C10, as the code has it. The reader does not compare the widths of the rows:
  every numeric line is appended to the list of rows whatever its number of tokens, and
  the list goes to \<^verbatim>\<open>np.array\<close> as it is. For rows of different widths the result is
  what \<^verbatim>\<open>np.array\<close> makes of them: an object array holding all the rows with NumPy
  before 1.24, a \<open>ValueError\<close> from NumPy 1.24 on.
\<close>

theorem read_xvg_keeps_every_width:
  assumes "fs filename = Some (Readable ls)"
    and "rows = map (row_of float) (filter (numeric_line float) ls)"
    and "\<not> rectangular rows"
  shows "fst (read_lines float ls) = rows
         \<and> read_xvg float ragged fs filename =
             bind_err (ragged rows) (\<lambda>a. Inr (a, snd (read_lines float ls)))
         \<and> read_xvg float legacy_ragged fs filename = Inr (ArrayObj rows, snd (read_lines float ls))
         \<and> read_xvg float strict_ragged fs filename = Inl ValueError"
proof -
  have ne: "rows \<noteq> []" using assms(3) by (auto simp: rectangular_def)
  show ?thesis using assms ne
    by (simp add: read_xvg_def read_lines_rows np_array_def rectangular_def Let_def
        legacy_ragged_def strict_ragged_def)
qed

text \<open>
  Claim C10 as stated fails where \<^verbatim>\<open>np.array\<close> refuses rows of different widths: the
  reader raises on the sample table with rows of two and three columns.
\<close>

theorem read_xvg_ragged_raises:
  "read_xvg float_digits strict_ragged sample_fs ''ragged.xvg'' = Inl ValueError"
  by (simp add: read_xvg_def sample_fs_def read_lines_rows ragged_numeric np_array_def
      strict_ragged_def)

text \<open>The same table under both behaviours of \<^verbatim>\<open>np.array\<close>.\<close>

theorem read_xvg_keeps_every_width_witness:
  "sample_fs ''ragged.xvg'' = Some (Readable ragged_lines)
   \<and> \<not> rectangular [[0, 1], [1, 2, 3], [2, 4::real]]
   \<and> fst (read_lines float_digits ragged_lines) = [[0, 1], [1, 2, 3], [2, 4]]
   \<and> read_xvg float_digits legacy_ragged sample_fs ''ragged.xvg''
       = Inr (ArrayObj [[0, 1], [1, 2, 3], [2, 4]], metadata0)
   \<and> read_xvg float_digits strict_ragged sample_fs ''ragged.xvg'' = Inl ValueError"
proof -
  have f: "sample_fs ''ragged.xvg'' = Some (Readable ragged_lines)"
    by (simp add: sample_fs_def)
  have r: "\<not> rectangular [[0, 1], [1, 2, 3], [2, 4::real]]"
    by (simp add: rectangular_def)
  have m: "snd (read_lines float_digits ragged_lines) = metadata0"
    by code_simp
  from read_xvg_keeps_every_width[of sample_fs "''ragged.xvg''" ragged_lines
      "[[0, 1], [1, 2, 3], [2, 4]]" float_digits strict_ragged,
      OF f ragged_numeric[symmetric] r] f r m
  show ?thesis by (simp add: strict_ragged_def)
qed

section \<open>More properties of the summarizer\<close>

lemma collect_Inl:
  "x \<in> set xs \<Longrightarrow> f x = Inl e \<Longrightarrow> \<exists>e'. collect f xs = Inl e'"
proof (induction xs)
  case Nil
  then show ?case by simp
next
  case (Cons a xs)
  show ?case
  proof (cases "f a")
    case (Inl e0)
    then show ?thesis by simp
  next
    case (Inr v)
    with Cons have "x \<in> set xs" by auto
    from Cons.IH[OF this Cons.prems(2)] obtain e' where "collect f xs = Inl e'" by blast
    with Inr show ?thesis by simp
  qed
qed

lemma plot_with_stats_collect:
  "plot_with_stats float ragged fs files ylabel ttl cf tns =
     bind_err (collect (plot_entry float ragged fs cf tns) (present fs files))
       (\<lambda>es. Inr (concat (map plot_calls es)
                   @ [SetXLabel (if tns then ''Time (ns)'' else ''Residue''),
                      SetYLabel ylabel, Legend, Grid, SetTitle ttl]
                   @ (if es \<noteq> [] then [TextMeans (map plot_mean es)] else [])))"
  by (cases "collect (plot_entry float ragged fs cf tns) (present fs files)")
     (simp_all add: plot_with_stats_def for_each_plot Let_def)

lemma create_box_plots_collect:
  "create_box_plots float ragged ttest_ind fs param files ylabel cf =
     bind_err (collect (box_entry float ragged fs cf) (present fs files))
       (\<lambda>es. let data_list = map fst es in
              Inr (if es \<noteq> [] then
                 [BoxPlot data_list (map (\<lambda>e. fst (snd e)) es)]
                 @ color_boxes (length es) (map (\<lambda>e. snd (snd e)) es)
                 @ (if length es \<ge> 2 then
                      [TTestInd (data_list ! 1) (data_list ! 0),
                       TextPValue (snd (ttest_ind (data_list ! 1) (data_list ! 0)))
                         (significant (snd (ttest_ind (data_list ! 1) (data_list ! 0))))]
                    else [])
                 @ [SetYLabel ylabel, Grid, SetTitle (param @ '' Distribution'')]
               else []))"
  by (cases "collect (box_entry float ragged fs cf) (present fs files)")
     (simp_all add: create_box_plots_def for_each_box Let_def)


lemma plot_entry_exact:
  "plot_entry_in exact float ragged fs cf tns kv = plot_entry float ragged fs cf tns kv"
  by (simp add: plot_entry_in_def plot_entry_def exact_def Let_def cong: if_cong)

section \<open>Evaluation of the sample runs\<close>

lemma sample_present:
  "present sample_fs rmsd_files = [(''apo'', ''rmsd_apo.xvg''), (''test'', ''rmsd_test.xvg'')]"
  "present sample_fs rg_files = []"
  "present sample_fs [(''apo'', ''rmsd_apo.xvg''), (''test'', ''rg_test.xvg'')] = [(''apo'', ''rmsd_apo.xvg'')]"
  by code_simp+

lemma sample_box_entry:
  "box_entry float_digits strict_ragged sample_fs 10 (''apo'', ''rmsd_apo.xvg'')
     = Inr ([50, 70], ''Apo'', ''#2E86AB'')"
  "box_entry float_digits strict_ragged sample_fs 10 (''test'', ''rmsd_test.xvg'')
     = Inr ([60, 80], ''Berberine'', ''#A23B72'')"
  by code_simp+

lemma sample_plot_entry:
  "plot_entry float_digits strict_ragged sample_fs 10 False (''apo'', ''rmsd_apo.xvg'')
     = Inr ([0, 20, 30], [10, 50, 70], ''Apo'', ''#2E86AB'', Some 60)"
  "plot_entry float_digits strict_ragged sample_fs 1 False (''apo'', ''rmsd_apo.xvg'')
     = Inr ([0, 20, 30], [1, 5, 7], ''Apo'', ''#2E86AB'', Some 6)"
  "plot_entry float_digits strict_ragged sample_fs 10 False (''apo'', ''single.xvg'')
     = Inr ([0], [70], ''Apo'', ''#2E86AB'', Some 70)"
  by code_simp+

lemma ten_rows:
  "map (\<lambda>i. [real i, 2 * real i]) [0..<10]
     = [[0, 0], [1, 2], [2, 4], [3, 6], [4, 8], [5, 10], [6, 12], [7, 14], [8, 16], [9, 18]]"
  by (simp add: upt_rec)

lemma ten_numeric:
  "map (row_of float_digits) (filter (numeric_line float_digits) ten_lines)
     = [[0, 0], [1, 2], [2, 4], [3, 6], [4, 8], [5, 10], [6, 12], [7, 14], [8, 16], [9, 18]]"
  by code_simp

lemma apo_tables:
  "py_getitem LABELS ''apo'' = Inr ''Apo''" "py_getitem COLORS ''apo'' = Inr ''#2E86AB''"
  by code_simp+

text \<open>
  Doubles that are known: 10 is one, and the doubles nearest to a tenth and to a third
  are \<open>0x1.999999999999ap-4\<close> and \<open>0x1.5555555555555p-2\<close>.
\<close>

lemma fl64_known:
  "fl64 10 = 10"
  "fl64 (1 / 10) = 3602879701896397 / 36028797018963968"
  "fl64 (1 / 3) = 6004799503160661 / 18014398509481984"
  by code_simp+



section \<open>The claims about the summarizer\<close>

text \<open>
  Claim C1. When at least two series are present and are read without an error,
  \<^verbatim>\<open>create_box_plots\<close> makes exactly one call of the t-test: its first sample is the
  equilibrated window of the second present series, its second sample the equilibrated
  window of the first present series, in the order of the dict; the p-value it returns
  is the one displayed.
\<close>

theorem ttest_pair:
  assumes "present fs files = kv0 # kv1 # rest"
    and "box_entry float ragged fs cf kv0 = Inr (w0, l0, c0)"
    and "box_entry float ragged fs cf kv1 = Inr (w1, l1, c1)"
    and "collect (box_entry float ragged fs cf) rest = Inr es"
  shows "\<exists>calls. create_box_plots float ragged ttest_ind fs param files ylabel cf = Inr calls
           \<and> filter is_ttest calls = [TTestInd w1 w0]
           \<and> TextPValue (snd (ttest_ind w1 w0)) (significant (snd (ttest_ind w1 w0))) \<in> set calls"
  using assms
  by (simp add: create_box_plots_collect Let_def is_ttest_color_boxes)

text \<open>
  On the RMSD files, of which the first two exist: one t-test, of the window of
  \<open>test\<close> against the window of \<open>apo\<close>.
\<close>

theorem ttest_pair_witness:
  "present sample_fs rmsd_files = [(''apo'', ''rmsd_apo.xvg''), (''test'', ''rmsd_test.xvg'')]
   \<and> box_entry float_digits strict_ragged sample_fs 10 (''apo'', ''rmsd_apo.xvg'')
       = Inr ([50, 70], ''Apo'', ''#2E86AB'')
   \<and> box_entry float_digits strict_ragged sample_fs 10 (''test'', ''rmsd_test.xvg'')
       = Inr ([60, 80], ''Berberine'', ''#A23B72'')
   \<and> (\<exists>calls. create_box_plots float_digits strict_ragged sample_ttest sample_fs ''RMSD''
                  rmsd_files ''RMSD'' 10 = Inr calls
          \<and> filter is_ttest calls = [TTestInd [60, 80] [50, 70]]
          \<and> TextPValue None False \<in> set calls)"
proof -
  have c: "collect (box_entry float_digits strict_ragged sample_fs 10) [] = Inr []"
    by simp
  from ttest_pair[OF sample_present(1) sample_box_entry(1) sample_box_entry(2) c,
      of sample_ttest "''RMSD''" "''RMSD''"]
    sample_present(1) sample_box_entry
  show ?thesis by (simp add: sample_ttest_def significant_def)
qed

text \<open>
  Claim C2, as the code has it. A present series whose file yields no numeric row is not
  excluded: the reader returns an array of shape \<open>(0,)\<close>, the selection of a column
  raises \<open>IndexError\<close>, and both \<^verbatim>\<open>plot_with_stats\<close> and \<^verbatim>\<open>create_box_plots\<close> end
  with an exception. No mean of it is taken, so no division by zero occurs.
\<close>

theorem empty_series_raises:
  assumes "kv \<in> set files"
    and "fs (snd kv) = Some (Readable ls)"
    and "filter (numeric_line float) ls = []"
  shows "plot_entry float ragged fs cf tns kv = Inl IndexError
         \<and> box_entry float ragged fs cf kv = Inl IndexError
         \<and> (\<exists>e. plot_with_stats float ragged fs files ylabel ttl cf tns = Inl e)
         \<and> (\<exists>e. create_box_plots float ragged ttest_ind fs param files ylabel cf = Inl e)"
proof -
  have r: "read_xvg float ragged fs (snd kv) = Inr (Array1 [], snd (read_lines float ls))"
    using assms by (simp add: read_xvg_def read_lines_rows np_array_def)
  have p: "plot_entry float ragged fs cf tns kv = Inl IndexError"
    using r by (simp add: plot_entry_def)
  have b: "box_entry float ragged fs cf kv = Inl IndexError"
    using r by (simp add: box_entry_def)
  have pres: "kv \<in> set (present fs files)"
    using assms by (simp add: present_def exists_path_def)
  obtain e1 where "collect (plot_entry float ragged fs cf tns) (present fs files) = Inl e1"
    using collect_Inl[of kv _ "plot_entry float ragged fs cf tns", OF pres p] by blast
  moreover obtain e2 where "collect (box_entry float ragged fs cf) (present fs files) = Inl e2"
    using collect_Inl[of kv _ "box_entry float ragged fs cf", OF pres b] by blast
  ultimately show ?thesis using p b
    by (simp add: plot_with_stats_collect create_box_plots_collect)
qed

text \<open>
  Claim C2 as stated fails: with a present file of comments only, both functions raise
  \<open>IndexError\<close>.
\<close>

theorem empty_series_counterexample:
  "plot_with_stats float_digits strict_ragged sample_fs [(''apo'', ''empty.xvg'')]
     ''RMSD'' ''(A)'' 10 True = Inl IndexError
   \<and> create_box_plots float_digits strict_ragged sample_ttest sample_fs ''RMSD''
       [(''apo'', ''empty.xvg'')] ''RMSD'' 10 = Inl IndexError"
  by code_simp

text \<open>
  The same file after a good one: both functions raise.
\<close>

theorem empty_series_raises_witness:
  "(''test'', ''empty.xvg'') \<in> set [(''apo'', ''rmsd_apo.xvg''), (''test'', ''empty.xvg'')]
   \<and> sample_fs ''empty.xvg'' = Some (Readable [''# no data''])
   \<and> filter (numeric_line float_digits) [''# no data''] = []
   \<and> plot_entry float_digits strict_ragged sample_fs 10 True (''test'', ''empty.xvg'') = Inl IndexError
   \<and> box_entry float_digits strict_ragged sample_fs 10 (''test'', ''empty.xvg'') = Inl IndexError
   \<and> (\<exists>e. plot_with_stats float_digits strict_ragged sample_fs
              [(''apo'', ''rmsd_apo.xvg''), (''test'', ''empty.xvg'')] ''RMSD'' ''(A)'' 10 True = Inl e)
   \<and> (\<exists>e. create_box_plots float_digits strict_ragged sample_ttest sample_fs ''RMSD''
              [(''apo'', ''rmsd_apo.xvg''), (''test'', ''empty.xvg'')] ''RMSD'' 10 = Inl e)"
proof -
  have m: "(''test'', ''empty.xvg'') \<in> set [(''apo'', ''rmsd_apo.xvg''), (''test'', ''empty.xvg'')]"
    by simp
  have f: "sample_fs (snd (''test'', ''empty.xvg'')) = Some (Readable [''# no data''])"
    by (simp add: sample_fs_def)
  have n: "filter (numeric_line float_digits) [''# no data''] = []"
    by code_simp
  from empty_series_raises[of "(''test'', ''empty.xvg'')" _ sample_fs "[''# no data'']" float_digits
      strict_ragged 10 True "''RMSD''" "''(A)''" sample_ttest "''RMSD''", OF m f n] m f n
  show ?thesis by simp
qed

text \<open>
  Claim C4. For a series of length \<open>N \<ge> 1\<close>, the trailing mean of
  \<^verbatim>\<open>plot_with_stats\<close> and the distribution of \<^verbatim>\<open>create_box_plots\<close> are taken over the
  same window, the suffix from index \<open>N div 2\<close>; its length is \<open>N - N div 2\<close>, at
  least 1, and for \<open>N = 1\<close> it is the whole series.
\<close>

theorem window_is_trailing_half:
  assumes "plot_entry float ragged fs cf tns kv = Inr (x, y, label, color, m)"
    and "1 \<le> length y"
  shows "m = np_mean (drop (length y div 2) y)
         \<and> box_entry float ragged fs cf kv = Inr (drop (length y div 2) y, label, color)
         \<and> length (drop (length y div 2) y) = length y - length y div 2
         \<and> 1 \<le> length (drop (length y div 2) y)
         \<and> (length y = 1 \<longrightarrow> drop (length y div 2) y = y)"
  using plot_entry_box_entry[OF assms(1)] assms(2) by auto

text \<open>
  A series of three values has a window of two; a series of one value is its own
  window.
\<close>

theorem window_is_trailing_half_witness:
  "plot_entry float_digits strict_ragged sample_fs 10 False (''apo'', ''rmsd_apo.xvg'')
     = Inr ([0, 20, 30], [10, 50, 70], ''Apo'', ''#2E86AB'', Some 60)
   \<and> 1 \<le> length [10, 50, 70::real]
   \<and> Some 60 = np_mean [50, 70]
   \<and> box_entry float_digits strict_ragged sample_fs 10 (''apo'', ''rmsd_apo.xvg'')
       = Inr ([50, 70], ''Apo'', ''#2E86AB'')
   \<and> length (drop (length [10, 50, 70::real] div 2) [10, 50, 70::real]) = 3 - 3 div 2
   \<and> plot_entry float_digits strict_ragged sample_fs 10 False (''apo'', ''single.xvg'')
       = Inr ([0], [70], ''Apo'', ''#2E86AB'', Some 70)
   \<and> length [70::real] = 1
   \<and> drop (length [70::real] div 2) [70::real] = [70]"
proof -
  have l3: "1 \<le> length [10, 50, 70::real]" by simp
  have l1: "1 \<le> length [70::real]" by simp
  from window_is_trailing_half[OF sample_plot_entry(1) l3]
    window_is_trailing_half[OF sample_plot_entry(3) l1] sample_plot_entry
  show ?thesis by simp
qed




text \<open>
  Claim C6. With no present series, \<^verbatim>\<open>plot_with_stats\<close> only labels the axes (no
  line, no mean, no text box) and \<^verbatim>\<open>create_box_plots\<close> does nothing. With exactly one
  present series, read without an error, its trailing mean is computed and displayed,
  and the box plot is drawn without any t-test.
\<close>

theorem few_series:
  "(present fs files = [] \<longrightarrow>
      plot_with_stats float ragged fs files ylabel ttl cf tns =
        Inr [SetXLabel (if tns then ''Time (ns)'' else ''Residue''),
             SetYLabel ylabel, Legend, Grid, SetTitle ttl]
      \<and> create_box_plots float ragged ttest_ind fs param files ylabel cf = Inr [])
   \<and> (present fs files = [kv]
        \<and> plot_entry float ragged fs cf tns kv = Inr (x, y, label, color, m) \<longrightarrow>
      m = np_mean (drop (length y div 2) y)
      \<and> plot_with_stats float ragged fs files ylabel ttl cf tns =
        Inr [Plot x y label color, AxHLine m color,
             SetXLabel (if tns then ''Time (ns)'' else ''Residue''),
             SetYLabel ylabel, Legend, Grid, SetTitle ttl, TextMeans [(label, m)]]
      \<and> create_box_plots float ragged ttest_ind fs param files ylabel cf =
        Inr [BoxPlot [drop (length y div 2) y] [label], SetFaceColor 0 color, SetAlpha 0,
             SetYLabel ylabel, Grid, SetTitle (param @ '' Distribution'')])"
proof (intro conjI impI)
  assume "present fs files = []"
  then show "plot_with_stats float ragged fs files ylabel ttl cf tns =
        Inr [SetXLabel (if tns then ''Time (ns)'' else ''Residue''),
             SetYLabel ylabel, Legend, Grid, SetTitle ttl]"
    by (simp add: plot_with_stats_collect)
next
  assume "present fs files = []"
  then show "create_box_plots float ragged ttest_ind fs param files ylabel cf = Inr []"
    by (simp add: create_box_plots_collect)
next
  assume a: "present fs files = [kv] \<and> plot_entry float ragged fs cf tns kv = Inr (x, y, label, color, m)"
  then show "m = np_mean (drop (length y div 2) y)"
    using plot_entry_box_entry by blast
next
  assume a: "present fs files = [kv] \<and> plot_entry float ragged fs cf tns kv = Inr (x, y, label, color, m)"
  then show "plot_with_stats float ragged fs files ylabel ttl cf tns =
        Inr [Plot x y label color, AxHLine m color,
             SetXLabel (if tns then ''Time (ns)'' else ''Residue''),
             SetYLabel ylabel, Legend, Grid, SetTitle ttl, TextMeans [(label, m)]]"
    by (simp add: plot_with_stats_collect plot_calls_def plot_mean_def)
next
  assume a: "present fs files = [kv] \<and> plot_entry float ragged fs cf tns kv = Inr (x, y, label, color, m)"
  then have "box_entry float ragged fs cf kv = Inr (drop (length y div 2) y, label, color)"
    using plot_entry_box_entry by blast
  with a show "create_box_plots float ragged ttest_ind fs param files ylabel cf =
        Inr [BoxPlot [drop (length y div 2) y] [label], SetFaceColor 0 color, SetAlpha 0,
             SetYLabel ylabel, Grid, SetTitle (param @ '' Distribution'')]"
    by (simp add: create_box_plots_collect color_boxes_def)
qed

text \<open>
  The radius of gyration files are all absent; of the other dict one file exists.
\<close>

theorem few_series_witness:
  "present sample_fs rg_files = []
   \<and> plot_with_stats float_digits strict_ragged sample_fs rg_files ''Rg'' ''(C)'' 10 False
       = Inr [SetXLabel ''Residue'', SetYLabel ''Rg'', Legend, Grid, SetTitle ''(C)'']
   \<and> create_box_plots float_digits strict_ragged sample_ttest sample_fs ''Rg'' rg_files ''Rg'' 10
       = Inr []
   \<and> present sample_fs [(''apo'', ''rmsd_apo.xvg''), (''test'', ''rg_test.xvg'')]
       = [(''apo'', ''rmsd_apo.xvg'')]
   \<and> plot_entry float_digits strict_ragged sample_fs 10 False (''apo'', ''rmsd_apo.xvg'')
       = Inr ([0, 20, 30], [10, 50, 70], ''Apo'', ''#2E86AB'', Some 60)
   \<and> plot_with_stats float_digits strict_ragged sample_fs
         [(''apo'', ''rmsd_apo.xvg''), (''test'', ''rg_test.xvg'')] ''RMSD'' ''(A)'' 10 False
       = Inr [Plot [0, 20, 30] [10, 50, 70] ''Apo'' ''#2E86AB'', AxHLine (Some 60) ''#2E86AB'',
              SetXLabel ''Residue'', SetYLabel ''RMSD'', Legend, Grid, SetTitle ''(A)'',
              TextMeans [(''Apo'', Some 60)]]
   \<and> create_box_plots float_digits strict_ragged sample_ttest sample_fs ''RMSD''
         [(''apo'', ''rmsd_apo.xvg''), (''test'', ''rg_test.xvg'')] ''RMSD'' 10
       = Inr [BoxPlot [[50, 70]] [''Apo''], SetFaceColor 0 ''#2E86AB'', SetAlpha 0,
              SetYLabel ''RMSD'', Grid, SetTitle ''RMSD Distribution'']"
proof -
  note zero = few_series[of sample_fs rg_files float_digits strict_ragged "''Rg''" "''(C)''" 10
      False sample_ttest "''Rg''", THEN conjunct1, rule_format, OF sample_present(2)]
  note one = few_series[of sample_fs "[(''apo'', ''rmsd_apo.xvg''), (''test'', ''rg_test.xvg'')]"
      float_digits strict_ragged "''RMSD''" "''(A)''" 10 False sample_ttest "''RMSD''"
      "(''apo'', ''rmsd_apo.xvg'')" "[0, 20, 30]" "[10, 50, 70]" "''Apo''" "''#2E86AB''" "Some 60",
      THEN conjunct2, rule_format, OF conjI, OF sample_present(3) sample_plot_entry(1)]
  from zero one sample_present(2,3) sample_plot_entry(1) show ?thesis
    by simp
qed

text \<open>
  Claim C9, as the code has it. For a file whose numeric rows are \<open>(i, 2 i)\<close> for
  \<open>i\<close> from 0 to 9 and the factor 10, the reader returns a matrix of shape
  \<open>(10, 2)\<close>, the scaled column is \<open>0, 20, \<dots>, 180\<close>, the window is its rows 5 to 9,
  \<open>100, \<dots>, 180\<close>, and the trailing mean is 140.
\<close>

theorem ten_rows_mean:
  assumes "fs filename = Some (Readable ls)"
    and "map (row_of float) (filter (numeric_line float) ls)
           = map (\<lambda>i. [real i, 2 * real i]) [0..<10]"
    and "py_getitem LABELS key = Inr label"
    and "py_getitem COLORS key = Inr color"
  shows "\<exists>a md x y. read_xvg float ragged fs filename = Inr (a, md)
           \<and> shape a = [10, 2]
           \<and> plot_entry float ragged fs 10 tns (key, filename) = Inr (x, y, label, color, Some 140)
           \<and> y = [0, 20, 40, 60, 80, 100, 120, 140, 160, 180]
           \<and> drop (length y div 2) y = [100, 120, 140, 160, 180]
           \<and> box_entry float ragged fs 10 (key, filename)
               = Inr ([100, 120, 140, 160, 180], label, color)"
proof -
  let ?rows = "[[0, 0], [1, 2], [2, 4], [3, 6], [4, 8], [5, 10], [6, 12], [7, 14], [8, 16],
                [9, 18::real]]"
  have rows: "fst (read_lines float ls) = ?rows"
    using assms(2) by (simp only: read_lines_rows ten_rows)
  have r: "read_xvg float ragged fs filename = Inr (Array2 2 ?rows, snd (read_lines float ls))"
    using assms(1) rows by (simp add: read_xvg_def np_array_def)
  have c0: "column (Array2 2 ?rows) 0 = Inr [0, 1, 2, 3, 4, 5, 6, 7, 8, 9]"
    by simp
  have c1: "column (Array2 2 ?rows) 1 = Inr [0, 2, 4, 6, 8, 10, 12, 14, 16, 18]"
    by simp
  have p: "plot_entry float ragged fs 10 tns (key, filename)
             = Inr (if tns then map (\<lambda>v. v / 1000) [0, 1, 2, 3, 4, 5, 6, 7, 8, 9]
                    else [0, 1, 2, 3, 4, 5, 6, 7, 8, 9],
                    [0, 20, 40, 60, 80, 100, 120, 140, 160, 180], label, color, Some 140)"
    using r c0 c1 assms(3,4) by (simp add: plot_entry_def Let_def np_mean_def)
  have b: "box_entry float ragged fs 10 (key, filename)
             = Inr ([100, 120, 140, 160, 180], label, color)"
    using r c1 assms(3,4) by (simp add: box_entry_def Let_def)
  show ?thesis using r p b by simp
qed

text \<open>
  Claim C9 as stated fails: on the sample file of these ten rows the trailing mean is
  140, not 70.
\<close>

theorem ten_rows_mean_is_not_70:
  "plot_entry float_digits strict_ragged sample_fs 10 False (''apo'', ''ten.xvg'')
     = Inr ([0, 1, 2, 3, 4, 5, 6, 7, 8, 9], [0, 20, 40, 60, 80, 100, 120, 140, 160, 180],
            ''Apo'', ''#2E86AB'', Some 140)
   \<and> Some (140::real) \<noteq> Some 70"
  by (rule conjI, code_simp, simp)

text \<open>
  The same file, read with the sample parser.
\<close>

theorem ten_rows_mean_witness:
  "sample_fs ''ten.xvg'' = Some (Readable ten_lines)
   \<and> py_getitem LABELS ''apo'' = Inr ''Apo'' \<and> py_getitem COLORS ''apo'' = Inr ''#2E86AB''
   \<and> (\<exists>a md x. read_xvg float_digits strict_ragged sample_fs ''ten.xvg'' = Inr (a, md)
          \<and> shape a = [10, 2]
          \<and> plot_entry float_digits strict_ragged sample_fs 10 True (''apo'', ''ten.xvg'')
              = Inr (x, [0, 20, 40, 60, 80, 100, 120, 140, 160, 180], ''Apo'', ''#2E86AB'', Some 140)
          \<and> box_entry float_digits strict_ragged sample_fs 10 (''apo'', ''ten.xvg'')
              = Inr ([100, 120, 140, 160, 180], ''Apo'', ''#2E86AB''))"
proof -
  have f: "sample_fs ''ten.xvg'' = Some (Readable ten_lines)"
    by (simp add: sample_fs_def)
  from ten_rows_mean[of sample_fs "''ten.xvg''" ten_lines float_digits "''apo''" "''Apo''"
      "''#2E86AB''" strict_ragged True, OF f ten_numeric[unfolded ten_rows[symmetric]] apo_tables]
    f apo_tables
  show ?thesis by auto
qed

end
